theory Spec2Isabelle
  imports Main "HOL-Library.Sublist"
begin

section \<open>JavaScript values and objects\<close>

text \<open>
  The settings objects of \<^verbatim>\<open>DesignManager.tsx\<close> hold whatever the store returned
  (JSON) or what the form wrote (strings). A JSON value is a \<open>json\<close>; a property of
  an in-memory object can moreover hold \<open>undefined\<close>, which the assignment
  \<^verbatim>\<open>settings.server_name = generalSettings.server_name\<close> produces when the key is missing.
  Numbers are integers here: the code only tests a number for being zero. Strings are
  lists of 8-bit characters, read as the code units below 256.
\<close>

datatype json =
    JNull
  | JBool bool
  | JNum int
  | JStr string
  | JArr "json list"
  | JObj "(string \<times> json) list"

datatype jsval = Undefined | Val json

type_synonym jsobject = "string \<rightharpoonup> jsval"

type_synonym jsondoc = "string \<rightharpoonup> json"

text \<open>
  Reading \<^verbatim>\<open>obj.k\<close> from the own properties of an object whose prototype is
  \<^verbatim>\<open>Object.prototype\<close>, for a key that is none of its built-in names: a missing
  property reads as \<open>undefined\<close>.
\<close>

definition js_get :: "jsobject \<Rightarrow> string \<Rightarrow> jsval" where
  "js_get obj k = (case obj k of None \<Rightarrow> Undefined | Some v \<Rightarrow> v)"

text \<open>JavaScript's truthiness, as the conditions \<^verbatim>\<open>if (x)\<close> and \<^verbatim>\<open>a || b\<close> test it.\<close>

fun truthy :: "jsval \<Rightarrow> bool" where
  "truthy Undefined = False"
| "truthy (Val JNull) = False"
| "truthy (Val (JBool b)) = b"
| "truthy (Val (JNum n)) = (n \<noteq> 0)"
| "truthy (Val (JStr s)) = (s \<noteq> [])"
| "truthy (Val (JArr xs)) = True"
| "truthy (Val (JObj kvs)) = True"

text \<open>
  A request body is sent as JSON: \<^verbatim>\<open>JSON.stringify\<close> leaves out the properties whose
  value is \<open>undefined\<close>. A fetched document is parsed back into an object.
\<close>

definition stringify :: "jsobject \<Rightarrow> jsondoc" where
  "stringify obj = (\<lambda>k. case obj k of Some (Val v) \<Rightarrow> Some v | _ \<Rightarrow> None)"

definition parse :: "jsondoc \<Rightarrow> jsobject" where
  "parse d = (\<lambda>k. map_option Val (d k))"

text \<open>
  An object in memory has its own properties and a prototype. An object literal starts
  with \<^verbatim>\<open>Object.prototype\<close>; only assignments to the key \<^verbatim>\<open>__proto__\<close> give an object
  another one, and then the prototype is null or an object parsed from JSON.
\<close>

datatype prototype = ObjectPrototype | NullPrototype | ParsedPrototype json

record js_object =
  own :: jsobject
  proto :: prototype

definition empty_object :: js_object where
  "empty_object = \<lparr>own = Map.empty, proto = ObjectPrototype\<rparr>"

text \<open>
  An assignment \<^verbatim>\<open>target[k] = v\<close> writes an own property unless it finds a setter on the
  prototype chain. The chains that occur here hold one setter, the accessor
  \<^verbatim>\<open>__proto__\<close> of \<^verbatim>\<open>Object.prototype\<close>. An assignment to that key reaches it when the
  target has no own property of the name, its prototype is not null, and a prototype
  parsed from JSON, which stands before \<^verbatim>\<open>Object.prototype\<close> in the chain, has no own
  property of the name either. The setter installs an object, an array or null as the
  prototype of the target and ignores every other value.
\<close>

fun has_own_proto :: "json \<Rightarrow> bool" where
  "has_own_proto (JObj kvs) = (''__proto__'' \<in> set (map fst kvs))"
| "has_own_proto v = False"

definition setter_reached :: "js_object \<Rightarrow> bool" where
  "setter_reached target =
     (own target ''__proto__'' = None \<and>
      (case proto target of
         ObjectPrototype \<Rightarrow> True
       | NullPrototype \<Rightarrow> False
       | ParsedPrototype p \<Rightarrow> \<not> has_own_proto p))"

fun set_prototype :: "js_object \<Rightarrow> jsval \<Rightarrow> js_object" where
  "set_prototype target (Val (JObj kvs)) = target\<lparr>proto := ParsedPrototype (JObj kvs)\<rparr>"
| "set_prototype target (Val (JArr xs)) = target\<lparr>proto := ParsedPrototype (JArr xs)\<rparr>"
| "set_prototype target (Val JNull) = target\<lparr>proto := NullPrototype\<rparr>"
| "set_prototype target v = target"

definition js_set :: "js_object \<Rightarrow> string \<Rightarrow> jsval \<Rightarrow> js_object" where
  "js_set target k v =
     (if k = ''__proto__'' \<and> setter_reached target then set_prototype target v
      else target\<lparr>own := (own target)(k \<mapsto> v)\<rparr>)"

text \<open>
  \<^verbatim>\<open>Object.assign(target, source)\<close> assigns every own property of the source to the
  target. The order of the keys does not matter: only the assignment to \<^verbatim>\<open>__proto__\<close>
  looks at the prototype and at an own property of that name, and no other assignment
  changes either.
\<close>

definition Object_assign :: "js_object \<Rightarrow> jsobject \<Rightarrow> js_object" where
  "Object_assign target source =
     (let copied = target\<lparr>own := own target ++ source(''__proto__'' := None)\<rparr>
      in case source ''__proto__'' of
           None \<Rightarrow> copied
         | Some v \<Rightarrow> js_set copied ''__proto__'' v)"

section \<open>The component and its collaborators\<close>

text \<open>
  The state of the component. \<open>designSettings\<close> holds the own properties of the settings
  object; the form, the reset and the spreads of the handlers build it as an object
  literal, whose prototype is \<^verbatim>\<open>Object.prototype\<close>.
\<close>

record component =
  designSettings :: jsobject
  isLoading :: bool
  uploading :: bool

text \<open>A toast, as passed to \<^verbatim>\<open>toast({title, description, variant})\<close>.\<close>

record notice =
  title :: string
  description :: string
  variant :: "string option"

definition toast :: "string \<Rightarrow> string \<Rightarrow> notice" where
  "toast t d = \<lparr>title = t, description = d, variant = None\<rparr>"

definition toast_destructive :: "string \<Rightarrow> string \<Rightarrow> notice" where
  "toast_destructive t d = \<lparr>title = t, description = d, variant = Some ''destructive''\<rparr>"

text \<open>
  Modelled from the spec: the row type of the \<^verbatim>\<open>server_settings\<close> table, whose declaration
  (the generated store client types) is not among the sources. The spec's StoredDocument is
  \<open>{ key: string, value: record, updatedAt: timestamp }\<close>: the value of a row is a record,
  that is a JSON object.
\<close>

record setting =
  setting_key :: string
  setting_value :: jsondoc

text \<open>The row handed to \<^verbatim>\<open>upsert\<close>: the value is still the in-memory object.\<close>

record upsert_row =
  upsert_key :: string
  upsert_value :: jsobject
  updated_at :: string

text \<open>The answer \<^verbatim>\<open>{ data, error }\<close> of the select.\<close>

record select_response =
  data :: "setting list option"
  error :: "string option"

section \<open>fetchDesignSettings\<close>

text \<open>
  The body of the \<^verbatim>\<open>forEach\<close> callback, on the object \<^verbatim>\<open>settings\<close> built so far,
  which starts as the empty object literal.
\<close>

definition merge_setting :: "js_object \<Rightarrow> setting \<Rightarrow> js_object" where
  "merge_setting settings s =
     (if setting_key s = ''design_settings'' then
        Object_assign settings (parse (setting_value s))
      else if setting_key s = ''general_settings'' then
        (let generalSettings = parse (setting_value s) in
         js_set (js_set settings ''server_name'' (js_get generalSettings ''server_name''))
           ''welcome_message'' (js_get generalSettings ''welcome_message''))
      else settings)"

definition merge_settings :: "setting list \<Rightarrow> js_object" where
  "merge_settings rows = foldl merge_setting empty_object rows"

text \<open>
  \<^verbatim>\<open>if (error) throw error\<close> jumps to the \<^verbatim>\<open>catch\<close>, which shows the destructive toast and
  leaves the state alone; \<^verbatim>\<open>data?.forEach\<close> skips a null \<^verbatim>\<open>data\<close>. The store is
  reached through \<open>select_in\<close>, the query by keys. The result is the component after
  \<^verbatim>\<open>setDesignSettings\<close>, which keeps the own properties of the merged object, and the
  toast shown, if any; the prototype of the merged object is \<open>proto (merge_settings rows)\<close>.
\<close>

definition load_failed :: notice where
  "load_failed = toast_destructive ''Error'' ''Failed to load design settings''"

definition fetchDesignSettings ::
  "(string list \<Rightarrow> select_response) \<Rightarrow> component \<Rightarrow> component \<times> notice option" where
  "fetchDesignSettings select_in c =
     (let resp = select_in [''design_settings'', ''general_settings'']
      in case error resp of
           Some e \<Rightarrow> (c, Some load_failed)
         | None \<Rightarrow>
             (c\<lparr>designSettings :=
                   own (merge_settings (case data resp of None \<Rightarrow> [] | Some rows \<Rightarrow> rows))\<rparr>,
              None))"

section \<open>updateCustomCSS\<close>

text \<open>
  The live document, as far as the code looks at it: the children of \<^verbatim>\<open>document.head\<close>
  and the elements that follow the head in tree order. \<^verbatim>\<open>getElementById\<close> returns the
  first element in tree order that carries the identifier.
\<close>

record element =
  tag :: string
  elem_id :: string
  textContent :: string

record page =
  head :: "element list"
  body :: "element list"

definition getElementById :: "page \<Rightarrow> string \<Rightarrow> element option" where
  "getElementById doc i = find (\<lambda>e. elem_id e = i) (head doc @ body doc)"

text \<open>\<^verbatim>\<open>e.remove()\<close> for an element found by \<open>getElementById\<close>: the node leaves its parent.\<close>

definition remove_element :: "element \<Rightarrow> page \<Rightarrow> page" where
  "remove_element e doc =
     (if e \<in> set (head doc) then doc\<lparr>head := remove1 e (head doc)\<rparr>
      else doc\<lparr>body := remove1 e (body doc)\<rparr>)"

definition remove_existing :: "page \<Rightarrow> page" where
  "remove_existing doc =
     (case getElementById doc ''custom-design-css'' of
        Some existingStyle \<Rightarrow> remove_element existingStyle doc
      | None \<Rightarrow> doc)"

text \<open>
  \<^verbatim>\<open>String.prototype.trim\<close> strips white space and line terminators from both ends;
  below 256 these are the code units 9 to 13, 32 and 160.
\<close>

definition is_ws :: "char \<Rightarrow> bool" where
  "is_ws c = (of_char c \<in> {9, 10, 11, 12, 13, 32, 160 :: nat})"

definition trim :: "string \<Rightarrow> string" where
  "trim s = rev (dropWhile is_ws (rev (dropWhile is_ws s)))"

definition updateCustomCSS :: "string \<Rightarrow> page \<Rightarrow> page" where
  "updateCustomCSS css doc =
     (let doc1 = remove_existing doc in
      if trim css \<noteq> [] then
        doc1\<lparr>head := head doc1 @
               [\<lparr>tag = ''style'', elem_id = ''custom-design-css'', textContent = css\<rparr>]\<rparr>
      else doc1)"

text \<open>The active overrides of a document: its elements carrying the fixed identifier.\<close>

definition overrides :: "page \<Rightarrow> element list" where
  "overrides doc = filter (\<lambda>e. elem_id e = ''custom-design-css'') (head doc @ body doc)"

section \<open>saveDesignSettings\<close>

text \<open>
  \<^verbatim>\<open>const designData = { ...designSettings }\<close> followed by the two \<^verbatim>\<open>delete\<close>s, and the
  object literal sent under \<^verbatim>\<open>general_settings\<close>.
\<close>

definition designData :: "jsobject \<Rightarrow> jsobject" where
  "designData s = s(''server_name'' := None, ''welcome_message'' := None)"

definition generalData :: "jsobject \<Rightarrow> jsobject" where
  "generalData s =
     [''server_name'' \<mapsto> js_get s ''server_name'',
      ''welcome_message'' \<mapsto> js_get s ''welcome_message'']"

definition design_row :: "string \<Rightarrow> jsobject \<Rightarrow> upsert_row" where
  "design_row now s =
     \<lparr>upsert_key = ''design_settings'', upsert_value = designData s, updated_at = now\<rparr>"

definition general_row :: "string \<Rightarrow> jsobject \<Rightarrow> upsert_row" where
  "general_row now s =
     \<lparr>upsert_key = ''general_settings'', upsert_value = generalData s, updated_at = now\<rparr>"

definition settings_saved :: notice where
  "settings_saved = toast ''Settings Saved''
     ''Design settings updated successfully. Refresh the page to see changes.''"

definition save_failed :: notice where
  "save_failed = toast_destructive ''Error'' ''Failed to save design settings''"

text \<open>
  The last step of the \<^verbatim>\<open>try\<close> block: \<^verbatim>\<open>if (designSettings.custom_css)
  updateCustomCSS(designSettings.custom_css)\<close>. The field is declared a string; a truthy
  value of another type, which only a stored document can bring in, has no \<^verbatim>\<open>trim\<close>, so
  the call throws after the existing element is removed and the \<^verbatim>\<open>catch\<close> reports a
  failed save.
\<close>

definition apply_custom_css :: "jsval \<Rightarrow> page \<Rightarrow> page \<times> notice" where
  "apply_custom_css css doc =
     (if truthy css then
        (case css of
           Val (JStr text) \<Rightarrow> (updateCustomCSS text doc, settings_saved)
         | _ \<Rightarrow> (remove_existing doc, save_failed))
      else (doc, settings_saved))"

text \<open>
  The store is reached through \<open>upsert\<close>, which answers with an error or none and
  changes the store's state \<open>'st\<close>; \<open>t1\<close> and \<open>t2\<close> are the two readings of
  \<^verbatim>\<open>new Date().toISOString()\<close>. A thrown error skips the rest of the \<^verbatim>\<open>try\<close> block;
  \<^verbatim>\<open>finally\<close> resets \<open>isLoading\<close> on every path.
\<close>

definition saveDesignSettings ::
  "(upsert_row \<Rightarrow> 'st \<Rightarrow> string option \<times> 'st) \<Rightarrow> string \<Rightarrow> string \<Rightarrow>
   component \<Rightarrow> 'st \<Rightarrow> page \<Rightarrow> component \<times> 'st \<times> page \<times> notice" where
  "saveDesignSettings upsert t1 t2 c st doc =
     (let s = designSettings c;
          c' = c\<lparr>isLoading := False\<rparr>;
          (designError, st1) = upsert (design_row t1 s) st
      in case designError of
           Some e \<Rightarrow> (c', st1, doc, save_failed)
         | None \<Rightarrow>
             (let (generalError, st2) =
                    (if truthy (js_get s ''server_name'') \<or> truthy (js_get s ''welcome_message'')
                     then upsert (general_row t2 s) st1
                     else (None, st1))
              in case generalError of
                   Some e \<Rightarrow> (c', st2, doc, save_failed)
                 | None \<Rightarrow>
                     (let (doc', n) = apply_custom_css (js_get s ''custom_css'') doc
                      in (c', st2, doc', n))))"

section \<open>handleImageUpload\<close>

record js_file =
  file_name :: string
  file_type :: string
  file_size :: nat

definition invalid_file :: notice where
  "invalid_file = toast_destructive ''Invalid File'' ''Please upload an image file''"

definition file_too_large :: notice where
  "file_too_large = toast_destructive ''File Too Large'' ''Please upload an image smaller than 5MB''"

definition upload_failed :: notice where
  "upload_failed = toast_destructive ''Upload Failed'' ''Failed to upload image''"

definition image_uploaded :: notice where
  "image_uploaded = toast ''Image Uploaded'' ''Hero image uploaded successfully''"

text \<open>\<^verbatim>\<open>file.name.split('.').pop()\<close>: what follows the last dot, or the whole name.\<close>

definition fileExt :: "string \<Rightarrow> string" where
  "fileExt n = rev (takeWhile (\<lambda>c. c \<noteq> CHR ''.'') (rev n))"

text \<open>
  The blob store is reached through \<open>upload\<close> and \<open>getPublicUrl\<close>; \<open>now\<close> is the
  decimal rendering of \<^verbatim>\<open>Date.now()\<close>, and the first argument after it is
  \<^verbatim>\<open>event.target.files?.[0]\<close>.
\<close>

definition handleImageUpload ::
  "(string \<Rightarrow> js_file \<Rightarrow> 'b \<Rightarrow> string option \<times> 'b) \<Rightarrow> (string \<Rightarrow> string) \<Rightarrow> string \<Rightarrow>
   js_file option \<Rightarrow> component \<Rightarrow> 'b \<Rightarrow> component \<times> 'b \<times> notice option" where
  "handleImageUpload upload getPublicUrl now files c blobs =
     (case files of
        None \<Rightarrow> (c, blobs, None)
      | Some f \<Rightarrow>
          if \<not> prefix ''image/'' (file_type f) then (c, blobs, Some invalid_file)
          else if file_size f > 5 * 1024 * 1024 then (c, blobs, Some file_too_large)
          else
            (let fileName = ''hero-image-'' @ now @ ''.'' @ fileExt (file_name f);
                 filePath = ''design/'' @ fileName;
                 (uploadError, blobs') = upload filePath f blobs
             in case uploadError of
                  Some e \<Rightarrow> (c\<lparr>uploading := False\<rparr>, blobs', Some upload_failed)
                | None \<Rightarrow>
                    (c\<lparr>designSettings :=
                          (designSettings c)(''hero_image_url'' \<mapsto>
                             Val (JStr (getPublicUrl filePath))),
                        uploading := False\<rparr>,
                     blobs', Some image_uploaded)))"

section \<open>resetToDefaults\<close>

definition default_settings :: jsobject where
  "default_settings =
     [''primary_color'' \<mapsto> Val (JStr ''#339999''),
      ''secondary_color'' \<mapsto> Val (JStr ''#f0e68c''),
      ''accent_color'' \<mapsto> Val (JStr ''#00ccff''),
      ''background_color'' \<mapsto> Val (JStr ''#1a1a1a''),
      ''text_color'' \<mapsto> Val (JStr ''#f5f5dc''),
      ''font_primary'' \<mapsto> Val (JStr ''Orbitron''),
      ''font_secondary'' \<mapsto> Val (JStr ''Inter''),
      ''border_radius'' \<mapsto> Val (JStr ''0.5rem''),
      ''shadow_intensity'' \<mapsto> Val (JStr ''medium''),
      ''animation_speed'' \<mapsto> Val (JStr ''normal''),
      ''server_name'' \<mapsto> Val (JStr ''DREAMLIGHT RP''),
      ''welcome_message'' \<mapsto> Val (JStr
         (''Experience the ultimate GTA V roleplay in our cyberpunk-themed city. '' @
          ''Professional staff, custom content, and endless possibilities await.'')),
      ''custom_css'' \<mapsto> Val (JStr '''')]"

definition resetToDefaults :: "component \<Rightarrow> component \<times> notice" where
  "resetToDefaults c =
     (c\<lparr>designSettings := default_settings\<rparr>,
      toast ''Settings Reset'' ''Design settings reset to defaults'')"

section \<open>The settings store\<close>

text \<open>
  Modelled from the spec: the Settings Store Adapter, an external collaborator reached
  through the store client. It is "a key/value document store keyed by a setting name",
  with "one row per key", "upserted by key (last write wins)", and a fetch by keys. A
  rejected request (\<open>fails\<close>) changes nothing. The order in which the rows of a fetch
  arrive is the store's choice: \<open>swapped\<close> turns it around.
\<close>

type_synonym table = "string \<rightharpoonup> jsondoc \<times> string"

definition store_upsert ::
  "(upsert_row \<Rightarrow> bool) \<Rightarrow> upsert_row \<Rightarrow> table \<Rightarrow> string option \<times> table" where
  "store_upsert fails r t =
     (if fails r then (Some ''rejected'', t)
      else (None, t(upsert_key r \<mapsto> (stringify (upsert_value r), updated_at r))))"

definition stored_rows :: "table \<Rightarrow> string list \<Rightarrow> setting list" where
  "stored_rows t keys =
     concat (map (\<lambda>k. case t k of
                         None \<Rightarrow> []
                       | Some (v, u) \<Rightarrow> [\<lparr>setting_key = k, setting_value = v\<rparr>]) keys)"

definition store_select :: "bool \<Rightarrow> table \<Rightarrow> string list \<Rightarrow> select_response" where
  "store_select swapped t keys =
     \<lparr>data = Some (if swapped then rev (stored_rows t keys) else stored_rows t keys),
      error = None\<rparr>"

text \<open>A store that only records the requests it receives, in order.\<close>

definition recording_upsert ::
  "(upsert_row \<Rightarrow> bool) \<Rightarrow> upsert_row \<Rightarrow> upsert_row list \<Rightarrow> string option \<times> upsert_row list" where
  "recording_upsert fails r log =
     ((if fails r then Some ''rejected'' else None), log @ [r])"

text \<open>The parts of what \<open>saveDesignSettings\<close> and \<open>handleImageUpload\<close> return.\<close>

definition store_after :: "'a \<times> 'st \<times> 'c \<Rightarrow> 'st" where
  "store_after r = fst (snd r)"

definition page_after :: "'a \<times> 'st \<times> page \<times> notice \<Rightarrow> page" where
  "page_after r = fst (snd (snd r))"

definition notice_after :: "'a \<times> 'st \<times> page \<times> notice \<Rightarrow> notice" where
  "notice_after r = snd (snd (snd r))"

text \<open>A sequence of calls of \<open>updateCustomCSS\<close>, first to last.\<close>

definition apply_all :: "page \<Rightarrow> string list \<Rightarrow> page" where
  "apply_all doc xs = foldl (\<lambda>d css. updateCustomCSS css d) doc xs"

section \<open>Concrete scenarios\<close>

definition example_page :: page where
  "example_page =
     \<lparr>head = [\<lparr>tag = ''title'', elem_id = '''', textContent = ''Admin''\<rparr>],
      body = [\<lparr>tag = ''div'', elem_id = ''root'', textContent = ''''\<rparr>]\<rparr>"

definition style_override :: "string \<Rightarrow> element" where
  "style_override css = \<lparr>tag = ''style'', elem_id = ''custom-design-css'', textContent = css\<rparr>"

text \<open>The component as \<^verbatim>\<open>useState\<close> creates it, and after a reset to the defaults.\<close>

definition initial_component :: component where
  "initial_component = \<lparr>designSettings = Map.empty, isLoading = False, uploading = False\<rparr>"

definition default_component :: component where
  "default_component = fst (resetToDefaults initial_component)"

text \<open>The two kinds of fetched rows.\<close>

definition design_setting :: "jsondoc \<Rightarrow> setting" where
  "design_setting d = \<lparr>setting_key = ''design_settings'', setting_value = d\<rparr>"

definition general_setting :: "jsondoc \<Rightarrow> setting" where
  "general_setting g = \<lparr>setting_key = ''general_settings'', setting_value = g\<rparr>"

text \<open>A store that rejects nothing, and a fetch that fails.\<close>

definition never :: "upsert_row \<Rightarrow> bool" where
  "never r = False"


text \<open>A blob store that only records the uploads it receives, and its public URLs.\<close>

definition recording_upload ::
  "string \<Rightarrow> js_file \<Rightarrow> (string \<times> js_file) list \<Rightarrow> string option \<times> (string \<times> js_file) list" where
  "recording_upload path f log = (None, log @ [(path, f)])"

definition public_url :: "string \<Rightarrow> string" where
  "public_url path = ''https://cdn.example/'' @ path"


text \<open>The documents of the spec's load scenario, one with a key outside the whitelist.\<close>

definition scenario_design :: jsondoc where
  "scenario_design = [''primary_color'' \<mapsto> JStr ''#123456'']"

definition scenario_general :: jsondoc where
  "scenario_general =
     [''server_name'' \<mapsto> JStr ''Foo'', ''welcome_message'' \<mapsto> JStr ''Hi'',
      ''extra_field'' \<mapsto> JStr ''ignored'']"

definition scenario_table :: table where
  "scenario_table =
     [''design_settings'' \<mapsto> (scenario_design, ''2024-01-01T00:00:00.000Z''),
      ''general_settings'' \<mapsto> (scenario_general, ''2024-01-02T00:00:00.000Z'')]"

text \<open>A store whose design document carries a key of the general document.\<close>

definition collision_table :: table where
  "collision_table =
     [''design_settings'' \<mapsto> ([''server_name'' \<mapsto> JStr ''B''], ''2024-01-01T00:00:00.000Z''),
      ''general_settings'' \<mapsto> ([''server_name'' \<mapsto> JStr ''A''], ''2024-01-02T00:00:00.000Z'')]"

text \<open>A form in which the server name was cleared and no welcome message was ever set.\<close>

definition cleared_name :: component where
  "cleared_name =
     \<lparr>designSettings =
        [''primary_color'' \<mapsto> Val (JStr ''#123456''), ''server_name'' \<mapsto> Val (JStr '''')],
      isLoading = False, uploading = False\<rparr>"

text \<open>A form whose only field is a style text.\<close>

definition styled_component :: component where
  "styled_component =
     \<lparr>designSettings = [''custom_css'' \<mapsto> Val (JStr ''a{}'')],
      isLoading = False, uploading = False\<rparr>"



text \<open>A design document with the key \<^verbatim>\<open>__proto__\<close>, and a store that holds it.\<close>

definition poisoned_design :: jsondoc where
  "poisoned_design = [''__proto__'' \<mapsto> JObj [(''primary_color'', JStr ''#123456'')]]"

definition poisoned_table :: table where
  "poisoned_table =
     [''design_settings'' \<mapsto> (poisoned_design, ''2024-01-01T00:00:00.000Z''),
      ''general_settings'' \<mapsto> (scenario_general, ''2024-01-02T00:00:00.000Z'')]"

section \<open>The style override\<close>

lemma find_Some_set: "find P xs = Some x \<Longrightarrow> x \<in> set xs \<and> P x"
  by (induction xs) (auto split: if_splits)

lemma filter_remove1_other: "\<not> P e \<Longrightarrow> filter P (remove1 e xs) = filter P xs"
  by (induction xs) auto

lemma overrides_remove_element:
  "overrides (remove_element e doc) = remove1 e (overrides doc)"
proof (cases "elem_id e = ''custom-design-css''")
  case True
  then show ?thesis
    by (simp add: overrides_def remove_element_def filter_remove1 [symmetric] remove1_append)
next
  case False
  then have "remove1 e (overrides doc) = overrides doc"
    by (simp add: overrides_def remove1_idem)
  with False show ?thesis
    by (simp add: overrides_def remove_element_def filter_remove1_other)
qed

lemma getElementById_None:
  "getElementById doc ''custom-design-css'' = None \<Longrightarrow> overrides doc = []"
  by (auto simp: getElementById_def overrides_def find_None_iff filter_empty_conv)

lemma getElementById_Some:
  "getElementById doc ''custom-design-css'' = Some e \<Longrightarrow> e \<in> set (overrides doc)"
  unfolding getElementById_def overrides_def
  by (drule find_Some_set) simp

lemma overrides_remove_existing:
  assumes "length (overrides doc) \<le> 1"
  shows "overrides (remove_existing doc) = []"
proof (cases "getElementById doc ''custom-design-css''")
  case None
  then show ?thesis by (simp add: remove_existing_def getElementById_None)
next
  case (Some e)
  then have "e \<in> set (overrides doc)" by (rule getElementById_Some)
  with assms have "overrides doc = [e]"
    by (cases "overrides doc") auto
  with Some show ?thesis
    by (simp add: remove_existing_def overrides_remove_element)
qed

lemma overrides_updateCustomCSS:
  assumes "length (overrides doc) \<le> 1"
  shows "overrides (updateCustomCSS css doc) =
    (if trim css \<noteq> [] then [style_override css] else [])"
proof -
  have "overrides (remove_existing doc) = []"
    using assms by (rule overrides_remove_existing)
  then show ?thesis
    by (simp add: updateCustomCSS_def Let_def overrides_def style_override_def)
qed

lemma dropWhile_all: "(\<forall>x\<in>set (dropWhile P xs). P x) \<longleftrightarrow> (\<forall>x\<in>set xs. P x)"
  by (induction xs) auto

lemma trim_empty_iff: "trim s = [] \<longleftrightarrow> (\<forall>c\<in>set s. is_ws c)"
  by (simp add: trim_def dropWhile_eq_Nil_conv dropWhile_all)

lemma overrides_apply_all:
  "length (overrides doc) \<le> 1 \<Longrightarrow> length (overrides (apply_all doc xs)) \<le> 1"
proof (induction xs arbitrary: doc)
  case Nil
  then show ?case by (simp add: apply_all_def)
next
  case (Cons x xs)
  from Cons.prems have "length (overrides (updateCustomCSS x doc)) \<le> 1"
    by (simp add: overrides_updateCustomCSS)
  then show ?case using Cons.IH [of "updateCustomCSS x doc"] by (simp add: apply_all_def)
qed

lemma updateCustomCSS_blank:
  "trim css = [] \<Longrightarrow> updateCustomCSS css doc = remove_existing doc"
  by (simp add: updateCustomCSS_def Let_def)

lemma apply_all_example:
  "apply_all example_page [''body{color:red}''] =
     example_page\<lparr>head := head example_page @ [style_override ''body{color:red}'']\<rparr>"
  by (simp add: apply_all_def updateCustomCSS_def remove_existing_def getElementById_def
      example_page_def style_override_def trim_def is_ws_def)

text \<open>
  C5: in a document with at most one element under the fixed identifier (as the page is
  before the first call), after any sequence of calls of \<open>updateCustomCSS\<close> at most one
  override is active; and a further call with a text \<open>x\<close> whose trimmed form is non-empty
  (so also a second call in a row) leaves exactly one override, the style element with the
  fixed identifier and the content \<open>x\<close>.
\<close>

theorem apply_leaves_one_override:
  assumes "length (overrides doc) \<le> 1"
  shows "length (overrides (apply_all doc xs)) \<le> 1 \<and>
         (trim x \<noteq> [] \<longrightarrow>
            overrides (updateCustomCSS x (apply_all doc xs)) =
              [\<lparr>tag = ''style'', elem_id = ''custom-design-css'', textContent = x\<rparr>])"
proof -
  have inv: "length (overrides (apply_all doc xs)) \<le> 1"
    using assms by (rule overrides_apply_all)
  then show ?thesis
    by (simp add: overrides_updateCustomCSS style_override_def)
qed

theorem apply_leaves_one_override_witness:
  "overrides example_page = [] \<and>
   overrides (apply_all example_page [''body{color:red}'']) = [style_override ''body{color:red}''] \<and>
   overrides (updateCustomCSS ''a{}'' (apply_all example_page [''body{color:red}''])) =
     [style_override ''a{}'']"
proof -
  have none: "overrides example_page = []"
    by (simp add: overrides_def example_page_def)
  then have one: "length (overrides example_page) \<le> 1"
    by simp
  have nonblank: "trim ''a{}'' \<noteq> []"
    by (simp add: trim_def is_ws_def)
  have installed:
    "overrides (apply_all example_page [''body{color:red}'']) = [style_override ''body{color:red}'']"
    by (simp add: apply_all_example) (simp add: overrides_def example_page_def style_override_def)
  show ?thesis
    using none installed nonblank
      apply_leaves_one_override [OF one, of "[''body{color:red}'']" "''a{}''"]
    by (simp add: style_override_def)
qed

text \<open>
  C6: a call of \<open>updateCustomCSS\<close> with an empty or whitespace-only text, after any
  sequence of earlier calls, only removes the existing override: it installs nothing, and
  no override is active afterwards.
\<close>

theorem apply_blank_clears_override:
  assumes "length (overrides doc) \<le> 1" and "\<forall>c\<in>set x. is_ws c"
  shows "updateCustomCSS x (apply_all doc xs) = remove_existing (apply_all doc xs) \<and>
         overrides (updateCustomCSS x (apply_all doc xs)) = []"
proof -
  have blank: "trim x = []"
    using assms(2) by (simp add: trim_empty_iff)
  have "length (overrides (apply_all doc xs)) \<le> 1"
    using assms(1) by (rule overrides_apply_all)
  then have "overrides (remove_existing (apply_all doc xs)) = []"
    by (rule overrides_remove_existing)
  with blank show ?thesis
    by (simp add: updateCustomCSS_blank)
qed

theorem apply_blank_clears_override_witness:
  "overrides (apply_all example_page [''body{color:red}'']) = [style_override ''body{color:red}''] \<and>
   overrides (updateCustomCSS '''' (apply_all example_page [''body{color:red}''])) = [] \<and>
   overrides (updateCustomCSS ''   '' (apply_all example_page [''body{color:red}''])) = []"
proof -
  have one: "length (overrides example_page) \<le> 1"
    by (simp add: overrides_def example_page_def)
  have empty: "\<forall>c\<in>set ''''. is_ws c"
    by simp
  have blanks: "\<forall>c\<in>set ''   ''. is_ws c"
    by (simp add: is_ws_def)
  have installed:
    "overrides (apply_all example_page [''body{color:red}'']) = [style_override ''body{color:red}'']"
    by (simp add: apply_all_example) (simp add: overrides_def example_page_def style_override_def)
  show ?thesis
    using installed
      apply_blank_clears_override [OF one empty, of "[''body{color:red}'']"]
      apply_blank_clears_override [OF one blanks, of "[''body{color:red}'']"]
    by blast
qed

section \<open>Loading\<close>

lemma js_get_parse: "js_get (parse d) k = (case d k of None \<Rightarrow> Undefined | Some v \<Rightarrow> Val v)"
  by (simp add: js_get_def parse_def split: option.splits)

lemma js_set_field:
  "k \<noteq> ''__proto__'' \<Longrightarrow> js_set target k v = target\<lparr>own := (own target)(k \<mapsto> v)\<rparr>"
  by (simp add: js_set_def)

lemma merge_setting_general:
  "merge_setting settings (general_setting g) =
     settings\<lparr>own := (own settings)
       (''server_name'' \<mapsto> js_get (parse g) ''server_name'',
        ''welcome_message'' \<mapsto> js_get (parse g) ''welcome_message'')\<rparr>"
  by (simp add: merge_setting_def general_setting_def Let_def js_set_field)

lemma merge_setting_design:
  "merge_setting settings (design_setting d) = Object_assign settings (parse d)"
  by (simp add: merge_setting_def design_setting_def)

lemma own_set_prototype: "own (set_prototype target v) = own target"
  by (cases "(target, v)" rule: set_prototype.cases) simp_all

lemma own_Object_assign:
  "k \<noteq> ''__proto__'' \<Longrightarrow> own (Object_assign target source) k = (own target ++ source) k"
  by (simp add: Object_assign_def Let_def js_set_def own_set_prototype map_add_def
      split: option.splits)

lemma setter_reached_copied:
  "own target ''__proto__'' = None \<Longrightarrow> proto target = ObjectPrototype \<Longrightarrow>
   setter_reached (target\<lparr>own := own target ++ source(''__proto__'' := None)\<rparr>)"
  by (simp add: setter_reached_def map_add_def)

lemma own_proto_Object_assign:
  "own target ''__proto__'' = None \<Longrightarrow> proto target = ObjectPrototype \<Longrightarrow>
   own (Object_assign target source) ''__proto__'' = None"
proof -
  assume plain: "own target ''__proto__'' = None" "proto target = ObjectPrototype"
  have reached: "setter_reached (target\<lparr>own := own target ++ source(''__proto__'' := None)\<rparr>)"
    using plain by (rule setter_reached_copied)
  have kept: "(own target ++ source(''__proto__'' := None)) ''__proto__'' = None"
    using plain(1) by (simp add: map_add_def)
  show ?thesis
    using reached kept
    by (simp add: Object_assign_def Let_def js_set_def own_set_prototype split: option.splits)
qed

lemma proto_set_prototype:
  "proto target = ObjectPrototype \<Longrightarrow>
   proto (set_prototype target (Val v)) =
     (case v of JObj kvs \<Rightarrow> ParsedPrototype (JObj kvs)
              | JArr xs \<Rightarrow> ParsedPrototype (JArr xs)
              | JNull \<Rightarrow> NullPrototype
              | _ \<Rightarrow> ObjectPrototype)"
  by (cases v) simp_all

lemma proto_Object_assign:
  "own target ''__proto__'' = None \<Longrightarrow> proto target = ObjectPrototype \<Longrightarrow>
   proto (Object_assign target (parse d)) =
     (case d ''__proto__'' of
        Some (JObj kvs) \<Rightarrow> ParsedPrototype (JObj kvs)
      | Some (JArr xs) \<Rightarrow> ParsedPrototype (JArr xs)
      | Some JNull \<Rightarrow> NullPrototype
      | _ \<Rightarrow> ObjectPrototype)"
  by (simp add: Object_assign_def Let_def js_set_def setter_reached_copied proto_set_prototype
      parse_def split: option.splits json.splits)




lemma merge_design_general:
  "own (merge_settings [design_setting d, general_setting g]) k =
     (if k = ''server_name'' \<or> k = ''welcome_message'' then Some (js_get (parse g) k)
      else if k = ''__proto__'' then None
      else map_option Val (d k))"
  by (simp add: merge_settings_def merge_setting_design merge_setting_general empty_object_def
      own_Object_assign own_proto_Object_assign parse_def)

lemma merge_general_design:
  "own (merge_settings [general_setting g, design_setting d]) k =
     (if k = ''__proto__'' then None
      else case d k of
             Some v \<Rightarrow> Some (Val v)
           | None \<Rightarrow> if k = ''server_name'' \<or> k = ''welcome_message''
                     then Some (js_get (parse g) k) else None)"
  by (simp add: merge_settings_def merge_setting_design merge_setting_general empty_object_def
      own_Object_assign own_proto_Object_assign parse_def map_add_def split: option.splits)

lemma proto_either_order:
  "rows = [design_setting d, general_setting g] \<or> rows = [general_setting g, design_setting d] \<Longrightarrow>
   proto (merge_settings rows) =
     (case d ''__proto__'' of
        Some (JObj kvs) \<Rightarrow> ParsedPrototype (JObj kvs)
      | Some (JArr xs) \<Rightarrow> ParsedPrototype (JArr xs)
      | Some JNull \<Rightarrow> NullPrototype
      | _ \<Rightarrow> ObjectPrototype)"
  by (auto simp: merge_settings_def merge_setting_design merge_setting_general empty_object_def
      proto_Object_assign)

lemma general_fields_general_last:
  "k = ''server_name'' \<or> k = ''welcome_message'' \<Longrightarrow>
   js_get (own (merge_settings [design_setting d, general_setting g])) k = js_get (parse g) k"
  by (auto simp: merge_design_general js_get_def)

lemma general_fields_design_last:
  "k = ''server_name'' \<or> k = ''welcome_message'' \<Longrightarrow>
   js_get (own (merge_settings [general_setting g, design_setting d])) k =
     (case d k of Some v \<Rightarrow> Val v | None \<Rightarrow> js_get (parse g) k)"
  by (auto simp: merge_general_design js_get_def split: option.splits)

lemma other_fields_either_order:
  "k \<noteq> ''server_name'' \<Longrightarrow> k \<noteq> ''welcome_message'' \<Longrightarrow> k \<noteq> ''__proto__'' \<Longrightarrow>
   rows = [design_setting d, general_setting g] \<or> rows = [general_setting g, design_setting d] \<Longrightarrow>
   own (merge_settings rows) k = map_option Val (d k)"
  by (auto simp: merge_design_general merge_general_design split: option.splits)

lemma dom_design_general:
  "dom (own (merge_settings [design_setting d, general_setting g])) =
     (dom d - {''__proto__''}) \<union> {''server_name'', ''welcome_message''}"
proof (rule set_eqI)
  fix k
  show "k \<in> dom (own (merge_settings [design_setting d, general_setting g])) \<longleftrightarrow>
      k \<in> (dom d - {''__proto__''}) \<union> {''server_name'', ''welcome_message''}"
    by (simp add: domIff merge_design_general)
qed

lemma dom_general_design:
  "dom (own (merge_settings [general_setting g, design_setting d])) =
     (dom d - {''__proto__''}) \<union> {''server_name'', ''welcome_message''}"
proof (rule set_eqI)
  fix k
  show "k \<in> dom (own (merge_settings [general_setting g, design_setting d])) \<longleftrightarrow>
      k \<in> (dom d - {''__proto__''}) \<union> {''server_name'', ''welcome_message''}"
    by (cases "d k") (simp_all add: domIff merge_general_design)
qed

lemma dom_either_order:
  "rows = [design_setting d, general_setting g] \<or> rows = [general_setting g, design_setting d] \<Longrightarrow>
   dom (own (merge_settings rows)) =
     (dom d - {''__proto__''}) \<union> {''server_name'', ''welcome_message''}"
  by (erule disjE) (simp_all only: dom_design_general dom_general_design)

lemma fetch_from_store:
  "fetchDesignSettings (store_select swapped tbl) c =
     (c\<lparr>designSettings := own (merge_settings
        (if swapped then rev (stored_rows tbl [''design_settings'', ''general_settings''])
         else stored_rows tbl [''design_settings'', ''general_settings'']))\<rparr>, None)"
  by (simp add: fetchDesignSettings_def Let_def store_select_def)

lemma stored_rows_both:
  "tbl ''design_settings'' = Some (d, u1) \<Longrightarrow> tbl ''general_settings'' = Some (g, u2) \<Longrightarrow>
   stored_rows tbl [''design_settings'', ''general_settings''] = [design_setting d, general_setting g]"
  by (simp add: stored_rows_def design_setting_def general_setting_def)

lemma scenario_rows:
  "stored_rows scenario_table [''design_settings'', ''general_settings''] =
     [design_setting scenario_design, general_setting scenario_general]"
  by (rule stored_rows_both) (simp_all add: scenario_table_def)

lemma scenario_select:
  "error (store_select swapped scenario_table [''design_settings'', ''general_settings'']) = None \<and>
   data (store_select swapped scenario_table [''design_settings'', ''general_settings'']) =
     Some (if swapped then [general_setting scenario_general, design_setting scenario_design]
           else [design_setting scenario_design, general_setting scenario_general])"
  by (simp add: store_select_def scenario_rows)

lemma poisoned_select:
  "error (store_select swapped poisoned_table [''design_settings'', ''general_settings'']) = None \<and>
   data (store_select swapped poisoned_table [''design_settings'', ''general_settings'']) =
     Some (if swapped then [general_setting scenario_general, design_setting poisoned_design]
           else [design_setting poisoned_design, general_setting scenario_general])"
  by (simp add: store_select_def stored_rows_def poisoned_table_def design_setting_def
      general_setting_def)




text \<open>
  C8, as the code has it: with the design and the general document fetched, in either
  order, every own property of the loaded object other than \<open>server_name\<close>,
  \<open>welcome_message\<close> and \<^verbatim>\<open>__proto__\<close> is the design document's, verbatim, whatever else
  the general document holds; the own keys of the result are those of the design document
  but \<^verbatim>\<open>__proto__\<close>, and the two whitelisted ones. A key \<^verbatim>\<open>__proto__\<close> of the design
  document is not copied: holding an object, an array or null it becomes the prototype of
  the loaded object. Step by step: the design branch writes every other key of its
  document with its value, and the general branch touches the two whitelisted fields
  only, giving them the general document's values.
\<close>

theorem load_general_whitelist:
  assumes "error (select_in [''design_settings'', ''general_settings'']) = None"
    and "data (select_in [''design_settings'', ''general_settings'']) = Some rows"
    and "rows = [design_setting d, general_setting g] \<or> rows = [general_setting g, design_setting d]"
  shows "(k \<noteq> ''server_name'' \<and> k \<noteq> ''welcome_message'' \<and> k \<noteq> ''__proto__'' \<longrightarrow>
           designSettings (fst (fetchDesignSettings select_in c)) k = map_option Val (d k)) \<and>
         dom (designSettings (fst (fetchDesignSettings select_in c))) =
           (dom d - {''__proto__''}) \<union> {''server_name'', ''welcome_message''} \<and>
         proto (merge_settings rows) =
           (case d ''__proto__'' of
              Some (JObj kvs) \<Rightarrow> ParsedPrototype (JObj kvs)
            | Some (JArr xs) \<Rightarrow> ParsedPrototype (JArr xs)
            | Some JNull \<Rightarrow> NullPrototype
            | _ \<Rightarrow> ObjectPrototype) \<and>
         (d k = Some v \<and> k \<noteq> ''__proto__'' \<longrightarrow>
           own (merge_setting settings (design_setting d)) k = Some (Val v)) \<and>
         (k \<noteq> ''server_name'' \<and> k \<noteq> ''welcome_message'' \<longrightarrow>
           own (merge_setting settings (general_setting g)) k = own settings k) \<and>
         proto (merge_setting settings (general_setting g)) = proto settings \<and>
         js_get (own (merge_setting settings (general_setting g))) ''server_name'' =
           (case g ''server_name'' of None \<Rightarrow> Undefined | Some x \<Rightarrow> Val x) \<and>
         js_get (own (merge_setting settings (general_setting g))) ''welcome_message'' =
           (case g ''welcome_message'' of None \<Rightarrow> Undefined | Some x \<Rightarrow> Val x)"
proof -
  have loaded: "designSettings (fst (fetchDesignSettings select_in c)) = own (merge_settings rows)"
    using assms(1,2) by (simp add: fetchDesignSettings_def Let_def)
  have others: "k \<noteq> ''server_name'' \<and> k \<noteq> ''welcome_message'' \<and> k \<noteq> ''__proto__'' \<longrightarrow>
      own (merge_settings rows) k = map_option Val (d k)"
    using assms(3) by (auto intro: other_fields_either_order)
  have keys: "dom (own (merge_settings rows)) =
      (dom d - {''__proto__''}) \<union> {''server_name'', ''welcome_message''}"
    using assms(3) by (rule dom_either_order)
  have prototype: "proto (merge_settings rows) =
      (case d ''__proto__'' of
         Some (JObj kvs) \<Rightarrow> ParsedPrototype (JObj kvs)
       | Some (JArr xs) \<Rightarrow> ParsedPrototype (JArr xs)
       | Some JNull \<Rightarrow> NullPrototype
       | _ \<Rightarrow> ObjectPrototype)"
    using assms(3) by (rule proto_either_order)
  have design: "d k = Some v \<and> k \<noteq> ''__proto__'' \<longrightarrow>
      own (merge_setting settings (design_setting d)) k = Some (Val v)"
    by (simp add: merge_setting_design own_Object_assign parse_def map_add_def)
  have general: "k \<noteq> ''server_name'' \<and> k \<noteq> ''welcome_message'' \<longrightarrow>
      own (merge_setting settings (general_setting g)) k = own settings k"
    by (simp add: merge_setting_general)
  have same: "proto (merge_setting settings (general_setting g)) = proto settings"
    by (simp add: merge_setting_general)
  have name: "js_get (own (merge_setting settings (general_setting g))) ''server_name'' =
      (case g ''server_name'' of None \<Rightarrow> Undefined | Some x \<Rightarrow> Val x)"
    by (simp add: merge_setting_general js_get_parse) (simp add: js_get_def)
  have message: "js_get (own (merge_setting settings (general_setting g))) ''welcome_message'' =
      (case g ''welcome_message'' of None \<Rightarrow> Undefined | Some x \<Rightarrow> Val x)"
    by (simp add: merge_setting_general js_get_parse) (simp add: js_get_def)
  from others keys prototype design general same name message show ?thesis
    unfolding loaded by blast
qed

theorem load_general_whitelist_witness:
  "designSettings (fst (fetchDesignSettings (store_select True scenario_table) initial_component))
     ''extra_field'' = None \<and>
   designSettings (fst (fetchDesignSettings (store_select False scenario_table) initial_component))
     ''extra_field'' = None \<and>
   designSettings (fst (fetchDesignSettings (store_select True scenario_table) initial_component))
     ''primary_color'' = Some (Val (JStr ''#123456'')) \<and>
   dom (designSettings (fst (fetchDesignSettings (store_select False scenario_table)
     initial_component))) = {''primary_color'', ''server_name'', ''welcome_message''}"
proof -
  note sel = scenario_select [of True, THEN conjunct1] scenario_select [of True, THEN conjunct2]
  note sel' = scenario_select [of False, THEN conjunct1] scenario_select [of False, THEN conjunct2]
  have a: "designSettings (fst (fetchDesignSettings (store_select True scenario_table)
      initial_component)) ''extra_field'' = None"
    using load_general_whitelist [where select_in = "store_select True scenario_table"
        and d = scenario_design and g = scenario_general and k = "''extra_field''"
        and c = initial_component, OF sel]
    by (simp add: scenario_design_def)
  have b: "designSettings (fst (fetchDesignSettings (store_select False scenario_table)
      initial_component)) ''extra_field'' = None"
    using load_general_whitelist [where select_in = "store_select False scenario_table"
        and d = scenario_design and g = scenario_general and k = "''extra_field''"
        and c = initial_component, OF sel']
    by (simp add: scenario_design_def)
  have c: "designSettings (fst (fetchDesignSettings (store_select True scenario_table)
      initial_component)) ''primary_color'' = Some (Val (JStr ''#123456''))"
    using load_general_whitelist [where select_in = "store_select True scenario_table"
        and d = scenario_design and g = scenario_general and k = "''primary_color''"
        and c = initial_component, OF sel]
    by (simp add: scenario_design_def)
  have d: "dom (designSettings (fst (fetchDesignSettings (store_select False scenario_table)
      initial_component))) = {''primary_color'', ''server_name'', ''welcome_message''}"
    using load_general_whitelist [where select_in = "store_select False scenario_table"
        and d = scenario_design and g = scenario_general and k = "''primary_color''"
        and c = initial_component, OF sel']
    by (auto simp: scenario_design_def)
  from a b c d show ?thesis
    by blast
qed

text \<open>
  A design document with the key \<^verbatim>\<open>__proto__\<close>: the key is in the document and not
  among the own properties of the loaded object, whose prototype is the object the key
  held.
\<close>

theorem proto_key_not_copied_counterexample:
  "poisoned_design ''__proto__'' = Some (JObj [(''primary_color'', JStr ''#123456'')]) \<and>
   data (store_select False poisoned_table [''design_settings'', ''general_settings'']) =
     Some [design_setting poisoned_design, general_setting scenario_general] \<and>
   designSettings (fst (fetchDesignSettings (store_select False poisoned_table)
     initial_component)) ''__proto__'' = None \<and>
   proto (merge_settings [design_setting poisoned_design, general_setting scenario_general]) =
     ParsedPrototype (JObj [(''primary_color'', JStr ''#123456'')])"
proof -
  have rows: "stored_rows poisoned_table [''design_settings'', ''general_settings''] =
      [design_setting poisoned_design, general_setting scenario_general]"
    by (simp add: stored_rows_def poisoned_table_def design_setting_def general_setting_def)
  have key: "poisoned_design ''__proto__'' = Some (JObj [(''primary_color'', JStr ''#123456'')])"
    by (simp add: poisoned_design_def)
  have prototype: "proto (merge_settings
      [design_setting poisoned_design, general_setting scenario_general]) =
     ParsedPrototype (JObj [(''primary_color'', JStr ''#123456'')])"
    by (simp add: proto_either_order [of _ poisoned_design scenario_general] key)
  show ?thesis
    using key prototype
    by (simp add: fetch_from_store store_select_def rows merge_design_general)
qed

text \<open>
  C2, as the code has it: the rows are merged in the order of their arrival. When the
  general document arrives last, \<open>server_name\<close> and \<open>welcome_message\<close> read as in the
  general document. When the design document arrives last, a key of that name in the design
  document wins, and the general document's value shows only where the design document has
  no such key (as in every design document that \<open>saveDesignSettings\<close> writes).
\<close>

theorem load_general_fields_by_order:
  assumes "error (select_in [''design_settings'', ''general_settings'']) = None"
    and "data (select_in [''design_settings'', ''general_settings'']) = Some rows"
    and "k = ''server_name'' \<or> k = ''welcome_message''"
  shows "(rows = [design_setting d, general_setting g] \<longrightarrow>
           js_get (designSettings (fst (fetchDesignSettings select_in c))) k = js_get (parse g) k) \<and>
         (rows = [general_setting g, design_setting d] \<longrightarrow>
           js_get (designSettings (fst (fetchDesignSettings select_in c))) k =
             (case d k of Some v \<Rightarrow> Val v | None \<Rightarrow> js_get (parse g) k))"
proof -
  have "fetchDesignSettings select_in c =
      (c\<lparr>designSettings := own (merge_settings rows)\<rparr>, None)"
    using assms(1,2) by (simp add: fetchDesignSettings_def Let_def)
  with assms(3) show ?thesis
    by (simp add: general_fields_general_last general_fields_design_last)
qed

theorem load_general_fields_by_order_witness:
  "js_get (designSettings (fst (fetchDesignSettings (store_select False scenario_table)
      initial_component))) ''server_name'' = Val (JStr ''Foo'') \<and>
   js_get (designSettings (fst (fetchDesignSettings (store_select True scenario_table)
      initial_component))) ''welcome_message'' = Val (JStr ''Hi'')"
proof -
  note sel = scenario_select [of True, THEN conjunct1] scenario_select [of True, THEN conjunct2]
  note sel' = scenario_select [of False, THEN conjunct1] scenario_select [of False, THEN conjunct2]
  have a: "js_get (designSettings (fst (fetchDesignSettings (store_select False scenario_table)
      initial_component))) ''server_name'' = Val (JStr ''Foo'')"
    using load_general_fields_by_order [where select_in = "store_select False scenario_table"
        and d = scenario_design and g = scenario_general and k = "''server_name''"
        and c = initial_component, OF sel']
    by (simp add: js_get_parse scenario_general_def)
  have b: "js_get (designSettings (fst (fetchDesignSettings (store_select True scenario_table)
      initial_component))) ''welcome_message'' = Val (JStr ''Hi'')"
    using load_general_fields_by_order [where select_in = "store_select True scenario_table"
        and d = scenario_design and g = scenario_general and k = "''welcome_message''"
        and c = initial_component, OF sel]
    by (simp add: js_get_parse scenario_general_def scenario_design_def)
  from a b show ?thesis
    by blast
qed

text \<open>
  The design document arriving after the general document and carrying \<open>server_name\<close>:
  the loaded \<open>server_name\<close> is the design document's \<open>B\<close>, not the general
  document's \<open>A\<close>.
\<close>

theorem general_fields_overwritten_counterexample:
  "js_get (designSettings (fst (fetchDesignSettings (store_select True collision_table)
      initial_component))) ''server_name'' = Val (JStr ''B'') \<and>
   data (store_select True collision_table [''design_settings'', ''general_settings'']) =
     Some [general_setting [''server_name'' \<mapsto> JStr ''A''],
           design_setting [''server_name'' \<mapsto> JStr ''B'']] \<and>
   js_get (parse [''server_name'' \<mapsto> JStr ''A'']) ''server_name'' = Val (JStr ''A'')"
proof -
  have rows: "stored_rows collision_table [''design_settings'', ''general_settings''] =
      [design_setting [''server_name'' \<mapsto> JStr ''B''],
       general_setting [''server_name'' \<mapsto> JStr ''A'']]"
    by (simp add: stored_rows_def collision_table_def design_setting_def general_setting_def)
  show ?thesis
    by (simp add: fetch_from_store store_select_def rows general_fields_design_last js_get_parse)
qed

section \<open>Saving\<close>





lemma default_fields:
  "js_get (designSettings default_component) ''server_name'' = Val (JStr ''DREAMLIGHT RP'') \<and>
   js_get (designSettings default_component) ''primary_color'' = Val (JStr ''#339999'') \<and>
   js_get (designSettings default_component) ''custom_css'' = Val (JStr '''')"
  by (simp add: default_component_def resetToDefaults_def default_settings_def js_get_def)

lemma cleared_fields:
  "js_get (designSettings cleared_name) ''server_name'' = Val (JStr '''') \<and>
   js_get (designSettings cleared_name) ''welcome_message'' = Undefined"
  by (simp add: cleared_name_def js_get_def)




text \<open>
  C4: when \<open>server_name\<close> and \<open>welcome_message\<close> are both falsy (empty or absent), the
  only request \<open>saveDesignSettings\<close> makes of the store, whatever store it is, is the upsert
  of the design row; a recording store sees that one request and a key/value store keeps
  its \<open>general_settings\<close> document as it was. The design upsert is the first request of
  every save: it goes under the key \<open>design_settings\<close>, carries the settings without
  \<open>server_name\<close> and \<open>welcome_message\<close>, and is stamped with the first clock reading.
\<close>

theorem save_without_general_fields:
  "(\<not> truthy (js_get (designSettings c) ''server_name'') \<and>
    \<not> truthy (js_get (designSettings c) ''welcome_message'') \<longrightarrow>
      store_after (saveDesignSettings upsert t1 t2 c st doc) =
        snd (upsert (design_row t1 (designSettings c)) st) \<and>
      store_after (saveDesignSettings (recording_upsert fails) t1 t2 c log doc) =
        log @ [design_row t1 (designSettings c)] \<and>
      store_after (saveDesignSettings (store_upsert fails) t1 t2 c tbl doc) ''general_settings'' =
        tbl ''general_settings'') \<and>
   take (Suc (length log))
     (store_after (saveDesignSettings (recording_upsert fails) t1 t2 c log doc)) =
     log @ [design_row t1 (designSettings c)] \<and>
   design_row t1 (designSettings c) =
     \<lparr>upsert_key = ''design_settings'',
      upsert_value = (designSettings c)(''server_name'' := None, ''welcome_message'' := None),
      updated_at = t1\<rparr>"
proof -
  have only: "\<not> truthy (js_get (designSettings c) ''server_name'') \<and>
      \<not> truthy (js_get (designSettings c) ''welcome_message'') \<longrightarrow>
      store_after (saveDesignSettings upsert t1 t2 c st doc) =
        snd (upsert (design_row t1 (designSettings c)) st)"
    for upsert :: "upsert_row \<Rightarrow> 'x \<Rightarrow> string option \<times> 'x" and st
    by (auto simp: saveDesignSettings_def Let_def store_after_def split: prod.splits option.splits)
  have first: "take (Suc (length log))
     (store_after (saveDesignSettings (recording_upsert fails) t1 t2 c log doc)) =
     log @ [design_row t1 (designSettings c)]"
    by (auto simp: saveDesignSettings_def Let_def store_after_def recording_upsert_def
        split: prod.splits option.splits)
  have request: "design_row t1 (designSettings c) =
     \<lparr>upsert_key = ''design_settings'',
      upsert_value = (designSettings c)(''server_name'' := None, ''welcome_message'' := None),
      updated_at = t1\<rparr>"
    by (simp add: design_row_def designData_def)
  have recorded: "\<not> truthy (js_get (designSettings c) ''server_name'') \<and>
      \<not> truthy (js_get (designSettings c) ''welcome_message'') \<longrightarrow>
      store_after (saveDesignSettings (recording_upsert fails) t1 t2 c log doc) =
        log @ [design_row t1 (designSettings c)]"
    using only [of "recording_upsert fails" log] by (simp add: recording_upsert_def)
  have stored: "\<not> truthy (js_get (designSettings c) ''server_name'') \<and>
      \<not> truthy (js_get (designSettings c) ''welcome_message'') \<longrightarrow>
      store_after (saveDesignSettings (store_upsert fails) t1 t2 c tbl doc) ''general_settings'' =
        tbl ''general_settings''"
    using only [of "store_upsert fails" tbl] by (simp add: store_upsert_def design_row_def)
  from only [of upsert st] recorded stored first request show ?thesis
    by blast
qed

theorem save_without_general_fields_witness:
  "store_after (saveDesignSettings (recording_upsert never) ''t1'' ''t2'' cleared_name []
     example_page) =
     [\<lparr>upsert_key = ''design_settings'',
       upsert_value = [''primary_color'' \<mapsto> Val (JStr ''#123456'')],
       updated_at = ''t1''\<rparr>] \<and>
   store_after (saveDesignSettings (store_upsert never) ''t1'' ''t2'' cleared_name scenario_table
     example_page) ''general_settings'' = Some (scenario_general, ''2024-01-02T00:00:00.000Z'')"
proof -
  note save = save_without_general_fields
    [where c = cleared_name and upsert = "recording_upsert never" and ?t1.0 = "''t1''"
      and ?t2.0 = "''t2''" and st = "[]" and doc = example_page and fails = never
      and log = "[]" and tbl = scenario_table]
  have payload: "(designSettings cleared_name)(''server_name'' := None, ''welcome_message'' := None) =
      [''primary_color'' \<mapsto> Val (JStr ''#123456'')]"
    by (rule ext) (simp add: cleared_name_def)
  have sent: "store_after (saveDesignSettings (recording_upsert never) ''t1'' ''t2'' cleared_name []
     example_page) =
     [\<lparr>upsert_key = ''design_settings'',
       upsert_value = [''primary_color'' \<mapsto> Val (JStr ''#123456'')],
       updated_at = ''t1''\<rparr>]"
    using save payload by (simp add: cleared_fields recording_upsert_def)
  have kept: "store_after (saveDesignSettings (store_upsert never) ''t1'' ''t2'' cleared_name
     scenario_table example_page) ''general_settings'' =
       Some (scenario_general, ''2024-01-02T00:00:00.000Z'')"
    using save by (simp add: cleared_fields scenario_table_def)
  from sent kept show ?thesis
    by blast
qed

text \<open>
  C10: \<open>saveDesignSettings\<close> leaves the document untouched when the \<open>custom_css\<close>
  field is falsy, in particular the empty string, whatever the store answers, so an
  override installed earlier stays. When the field holds a non-empty string and the save
  is reported as a success, the document is the one \<open>updateCustomCSS\<close> produces.
\<close>

theorem save_skips_applicator_without_css:
  "(\<not> truthy (js_get (designSettings c) ''custom_css'') \<longrightarrow>
      page_after (saveDesignSettings upsert t1 t2 c st doc) = doc) \<and>
   (js_get (designSettings c) ''custom_css'' = Val (JStr css) \<and> css \<noteq> [] \<and>
    notice_after (saveDesignSettings upsert t1 t2 c st doc) = settings_saved \<longrightarrow>
      page_after (saveDesignSettings upsert t1 t2 c st doc) = updateCustomCSS css doc)"
  by (auto simp: saveDesignSettings_def Let_def page_after_def notice_after_def apply_custom_css_def
      settings_saved_def save_failed_def toast_def toast_destructive_def
      split: prod.splits option.splits)

theorem save_skips_applicator_without_css_witness:
  "page_after (saveDesignSettings (recording_upsert never) ''t1'' ''t2'' default_component []
     (apply_all example_page [''body{color:red}''])) =
     apply_all example_page [''body{color:red}''] \<and>
   overrides (apply_all example_page [''body{color:red}'']) =
     [style_override ''body{color:red}''] \<and>
   page_after (saveDesignSettings (recording_upsert never) ''t1'' ''t2'' styled_component []
     example_page) = updateCustomCSS ''a{}'' example_page"
proof -
  have kept: "page_after (saveDesignSettings (recording_upsert never) ''t1'' ''t2''
      default_component [] (apply_all example_page [''body{color:red}''])) =
     apply_all example_page [''body{color:red}'']"
    using save_skips_applicator_without_css
      [where c = default_component and upsert = "recording_upsert never"
        and ?t1.0 = "''t1''" and ?t2.0 = "''t2''" and st = "[]"
        and doc = "apply_all example_page [''body{color:red}'']"]
    by (simp add: default_fields)
  have installed: "overrides (apply_all example_page [''body{color:red}'']) =
     [style_override ''body{color:red}'']"
    by (simp add: apply_all_example) (simp add: overrides_def example_page_def style_override_def)
  have saved: "notice_after (saveDesignSettings (recording_upsert never) ''t1'' ''t2''
      styled_component [] example_page) = settings_saved"
    by (simp add: saveDesignSettings_def Let_def notice_after_def recording_upsert_def never_def
        apply_custom_css_def styled_component_def js_get_def design_row_def)
  have applied: "page_after (saveDesignSettings (recording_upsert never) ''t1'' ''t2''
      styled_component [] example_page) = updateCustomCSS ''a{}'' example_page"
    using saved save_skips_applicator_without_css
      [where c = styled_component and css = "''a{}''" and upsert = "recording_upsert never"
        and ?t1.0 = "''t1''" and ?t2.0 = "''t2''" and st = "[]" and doc = example_page]
    by (simp add: styled_component_def js_get_def)
  from kept installed applied show ?thesis
    by blast
qed



section \<open>Uploading\<close>

text \<open>
  C9: a file larger than 5 MB (5 * 1024 * 1024 bytes) or whose type does not start with
  \<open>image/\<close> is turned away with the destructive toast of its check; the result does not
  depend on the blob store, whose state is returned as it was, and the component is not
  changed.
\<close>

theorem upload_validation_before_store:
  "5 * 1024 * 1024 < file_size f \<or> \<not> prefix ''image/'' (file_type f) \<Longrightarrow>
   handleImageUpload upload getPublicUrl now (Some f) c blobs =
     (c, blobs, Some (if prefix ''image/'' (file_type f) then file_too_large else invalid_file))"
  by (auto simp: handleImageUpload_def)

theorem upload_validation_before_store_witness:
  "handleImageUpload recording_upload public_url ''1700000000000''
     (Some \<lparr>file_name = ''hero.png'', file_type = ''image/png'', file_size = 6 * 1024 * 1024\<rparr>)
     initial_component [] = (initial_component, [], Some file_too_large) \<and>
   handleImageUpload recording_upload public_url ''1700000000000''
     (Some \<lparr>file_name = ''notes.txt'', file_type = ''text/plain'', file_size = 12\<rparr>)
     initial_component [] = (initial_component, [], Some invalid_file) \<and>
   store_after (handleImageUpload recording_upload public_url ''1700000000000''
     (Some \<lparr>file_name = ''hero.png'', file_type = ''image/png'', file_size = 5 * 1024 * 1024\<rparr>)
     initial_component []) =
       [(''design/hero-image-1700000000000.png'',
         \<lparr>file_name = ''hero.png'', file_type = ''image/png'', file_size = 5 * 1024 * 1024\<rparr>)]"
proof -
  have big: "handleImageUpload recording_upload public_url ''1700000000000''
     (Some \<lparr>file_name = ''hero.png'', file_type = ''image/png'', file_size = 6 * 1024 * 1024\<rparr>)
     initial_component [] = (initial_component, [], Some file_too_large)"
    using upload_validation_before_store
      [of "\<lparr>file_name = ''hero.png'', file_type = ''image/png'', file_size = 6 * 1024 * 1024\<rparr>"
          recording_upload public_url "''1700000000000''" initial_component "[]"]
    by simp
  have plain: "handleImageUpload recording_upload public_url ''1700000000000''
     (Some \<lparr>file_name = ''notes.txt'', file_type = ''text/plain'', file_size = 12\<rparr>)
     initial_component [] = (initial_component, [], Some invalid_file)"
    using upload_validation_before_store
      [of "\<lparr>file_name = ''notes.txt'', file_type = ''text/plain'', file_size = 12\<rparr>"
          recording_upload public_url "''1700000000000''" initial_component "[]"]
    by simp
  have accepted: "store_after (handleImageUpload recording_upload public_url ''1700000000000''
     (Some \<lparr>file_name = ''hero.png'', file_type = ''image/png'', file_size = 5 * 1024 * 1024\<rparr>)
     initial_component []) =
       [(''design/hero-image-1700000000000.png'',
         \<lparr>file_name = ''hero.png'', file_type = ''image/png'', file_size = 5 * 1024 * 1024\<rparr>)]"
    by (simp add: handleImageUpload_def recording_upload_def fileExt_def store_after_def Let_def)
  from big plain accepted show ?thesis
    by blast
qed

end
